theory Spec2Isabelle
  imports Complex_Main "HOL-Library.Multiset"
begin

section \<open>Provider replies and chain data\<close>

text \<open>
  Every call to the chain provider is awaited, and either resolves with a value or
  rejects with an error whose \<^verbatim>\<open>message\<close> is the string carried by \<open>Rejected\<close>.
  A thrown JavaScript error is the left injection of a sum, carrying its message.
\<close>

datatype 'a reply = Resolved 'a | Rejected string

text \<open>
  A block as the estimator reads it: \<^verbatim>\<open>number\<close> and the optional
  \<^verbatim>\<open>baseFeePerGas\<close>. A \<^verbatim>\<open>BigNumber\<close> is an arbitrary-precision integer, so it
  is an \<open>int\<close>; a \<^verbatim>\<open>BigNumber\<close> object is truthy whatever its value, so the
  truthiness test on \<^verbatim>\<open>baseFeePerGas\<close> is the test for \<open>Some\<close>.
\<close>

record block =
  number :: int
  baseFeePerGas :: "int option"

text \<open>
  The provider as the estimator uses it during one cycle: the reply to
  \<^verbatim>\<open>getBlock('latest')\<close>, the reply to \<^verbatim>\<open>getBlock(n)\<close> for each block number, and
  the reply to \<^verbatim>\<open>estimateGas(transaction)\<close>. \<^verbatim>\<open>getBlock\<close> may resolve with
  \<^verbatim>\<open>null\<close> (\<open>None\<close>).
\<close>

record 'tx provider =
  getBlock_latest :: "block option reply"
  getBlock :: "int \<Rightarrow> block option reply"
  provider_estimateGas :: "'tx \<Rightarrow> int reply"

section \<open>BigNumber operations used by the hooks\<close>

definition MAX_SAFE :: int where
  "MAX_SAFE = 9007199254740991"

text \<open>
  \<^verbatim>\<open>BigNumber.from(value)\<close> on a JavaScript number: a number outside the safe
  integer range is refused with a numeric fault. The model takes integer-valued
  numbers.
\<close>

definition BigNumber_from :: "int \<Rightarrow> string + int" where
  "BigNumber_from v =
     (if v \<ge> MAX_SAFE \<or> v \<le> - MAX_SAFE then Inl ''overflow'' else Inr v)"

text \<open>\<^verbatim>\<open>a.div(b)\<close> truncates towards zero.\<close>

definition bn_div :: "int \<Rightarrow> int \<Rightarrow> int" where
  "bn_div a b = sgn a * sgn b * (\<bar>a\<bar> div \<bar>b\<bar>)"

section \<open>The gas estimator\<close>

record confidenceLevels =
  low :: int
  medium :: int
  high :: int

record trends =
  average :: int
  median :: int
  percentile90 :: int

record timeTiers =
  likely :: nat
  fast :: nat
  urgent :: nat

record gasEstimation =
  baseFee :: int
  maxFeePerGas :: int
  maxPriorityFeePerGas :: int
  gasLimit :: int
  estimatedCost :: int
  confidence :: confidenceLevels
  historicalTrends :: trends
  timeEstimates :: timeTiers

text \<open>
  The options of \<^verbatim>\<open>useGasEstimator\<close>. \<open>provider = None\<close> is a falsy provider.
  \<open>onError\<close> and \<open>onSuccess\<close> say whether the optional callback was supplied;
  the callbacks themselves only observe, and their calls are logged in the state.
\<close>

record 'tx gasEstimatorOptions =
  provider :: "'tx provider option"
  refreshInterval :: nat
  historicalBlocks :: int
  priorityFeeBump :: int
  onError :: bool
  onSuccess :: bool

datatype callback = CalledOnSuccess gasEstimation | CalledOnError string

text \<open>
  The four state cells of the hook, and the log of callback calls made so far.
\<close>

record hookState =
  loading :: bool
  error :: "string option"
  estimation :: "gasEstimation option"
  blockHistory :: "block list"
  called :: "callback list"

definition initialHookState :: hookState where
  "initialHookState =
     \<lparr>loading = True, error = None, estimation = None, blockHistory = [], called = []\<rparr>"

subsection \<open>Historical blocks\<close>

text \<open>
  \<^verbatim>\<open>provider.getBlock(n).catch(() => null)\<close>: a rejected fetch yields \<^verbatim>\<open>null\<close>.
\<close>

definition fetchBlock :: "'tx provider \<Rightarrow> int \<Rightarrow> block option" where
  "fetchBlock p n = (case getBlock p n of Rejected _ \<Rightarrow> None | Resolved b \<Rightarrow> b)"

text \<open>
  \<^verbatim>\<open>Array.from({ length: historicalBlocks }, (_, i) => latestBlockNumber - i)\<close>:
  a negative length gives the empty array.
\<close>

definition blockNumbers :: "int \<Rightarrow> int \<Rightarrow> int list" where
  "blockNumbers len latestBlockNumber =
     map (\<lambda>i. latestBlockNumber - int i) [0..<nat len]"

definition historicalFees :: "'tx provider \<Rightarrow> int \<Rightarrow> int \<Rightarrow> block option list" where
  "historicalFees p len latestBlockNumber =
     map (fetchBlock p) (blockNumbers len latestBlockNumber)"

text \<open>\<^verbatim>\<open>historicalFees.filter(block => block && block.baseFeePerGas)\<close>\<close>

definition validBlock :: "block option \<Rightarrow> block option" where
  "validBlock b =
     (case b of None \<Rightarrow> None
      | Some blk \<Rightarrow> (case baseFeePerGas blk of None \<Rightarrow> None | Some _ \<Rightarrow> Some blk))"

definition validHistoricalBlocks :: "block option list \<Rightarrow> block list" where
  "validHistoricalBlocks fetched = List.map_filter validBlock fetched"

text \<open>
  \<^verbatim>\<open>validHistoricalBlocks.map(block => block.baseFeePerGas).filter(fee => fee && !fee.isZero())\<close>,
  then the current base fee is pushed when nothing is left.
\<close>

definition historicalBaseFees :: "block list \<Rightarrow> int \<Rightarrow> int list" where
  "historicalBaseFees valid currentBaseFee =
     (let fees = filter (\<lambda>fee. fee \<noteq> 0) (List.map_filter baseFeePerGas valid)
      in if length fees = 0 then fees @ [currentBaseFee] else fees)"

subsection \<open>Sorting\<close>

text \<open>The comparator handed to \<^verbatim>\<open>sort\<close>: \<^verbatim>\<open>a.sub(b).isNegative() ? -1 : 1\<close>.\<close>

definition feeCompare :: "int \<Rightarrow> int \<Rightarrow> int" where
  "feeCompare a b = (if a - b < 0 then - 1 else 1)"

text \<open>
  \<^verbatim>\<open>Array.prototype.sort(comparefn)\<close> belongs to the host, not to the repository,
  and the comparator above never returns 0, so it is not a consistent comparison
  function and the language leaves the order of the result to the host. Two hosts
  are modelled, both insertion sorts that place each element in turn into the
  already sorted prefix.

  The first walks the prefix from the left and places \<open>x\<close> in front of the first
  element \<open>y\<close> with \<open>comparefn x y < 0\<close>.
\<close>

primrec insertBy :: "('a \<Rightarrow> 'a \<Rightarrow> int) \<Rightarrow> 'a \<Rightarrow> 'a list \<Rightarrow> 'a list" where
  "insertBy comparefn x [] = [x]"
| "insertBy comparefn x (y # ys) =
     (if comparefn x y < 0 then x # y # ys else y # insertBy comparefn x ys)"

definition array_sort :: "('a \<Rightarrow> 'a \<Rightarrow> int) \<Rightarrow> 'a list \<Rightarrow> 'a list" where
  "array_sort comparefn xs = foldl (\<lambda>sorted_prefix x. insertBy comparefn x sorted_prefix) [] xs"

text \<open>
  The second walks the prefix from the right, moving \<open>x\<close> past each element
  \<open>prev\<close>, and stops at the first one with \<open>comparefn prev x \<le> 0\<close>. The prefix is
  kept reversed, its last element first.
\<close>

primrec insertFromRight :: "('a \<Rightarrow> 'a \<Rightarrow> int) \<Rightarrow> 'a \<Rightarrow> 'a list \<Rightarrow> 'a list" where
  "insertFromRight comparefn x [] = [x]"
| "insertFromRight comparefn x (prev # earlier) =
     (if comparefn prev x \<le> 0 then x # prev # earlier
      else prev # insertFromRight comparefn x earlier)"

definition array_sortR :: "('a \<Rightarrow> 'a \<Rightarrow> int) \<Rightarrow> 'a list \<Rightarrow> 'a list" where
  "array_sortR comparefn xs =
     rev (foldl (\<lambda>reversed_prefix x. insertFromRight comparefn x reversed_prefix) [] xs)"

text \<open>
  The estimator reads the sorted fees as values only, and on values the two hosts
  return the same list (\<open>array_sortR_fees\<close> below); the first is taken.
\<close>

definition sortedFees :: "int list \<Rightarrow> int list" where
  "sortedFees fees = array_sort feeCompare fees"

subsection \<open>One estimation cycle\<close>

text \<open>\<^verbatim>\<open>xs[i] || fallback\<close> on an array of \<^verbatim>\<open>BigNumber\<close>s: out of range gives the fallback.\<close>

definition at_or :: "'a list \<Rightarrow> nat \<Rightarrow> 'a \<Rightarrow> 'a" where
  "at_or xs i fallback = (if i < length xs then xs ! i else fallback)"

text \<open>
  \<^verbatim>\<open>Math.floor(n * 0.9)\<close>, which on array lengths is the integer \<open>9 * n div 10\<close>.
\<close>

definition percentileIndex :: "nat \<Rightarrow> nat" where
  "percentileIndex n = (9 * n) div 10"

text \<open>The message of the \<^verbatim>\<open>TypeError\<close> raised by reading a property of \<^verbatim>\<open>null\<close>.\<close>

definition nullBlockMessage :: string where
  "nullBlockMessage = ''Cannot read properties of null''"

text \<open>\<^verbatim>\<open>currentBlock.baseFeePerGas || BigNumber.from(0)\<close>\<close>

definition currentBaseFeeOf :: "block \<Rightarrow> int" where
  "currentBaseFeeOf b = (case baseFeePerGas b of Some f \<Rightarrow> f | None \<Rightarrow> 0)"

definition resolveGasLimit :: "'tx provider \<Rightarrow> 'tx option \<Rightarrow> int" where
  "resolveGasLimit p transaction =
     (case transaction of
        None \<Rightarrow> 21000
      | Some t \<Rightarrow> (case provider_estimateGas p t of Resolved g \<Rightarrow> g | Rejected _ \<Rightarrow> 21000))"

definition buildEstimation :: "int \<Rightarrow> int \<Rightarrow> int \<Rightarrow> int list \<Rightarrow> gasEstimation" where
  "buildEstimation currentBaseFee priorityFee limit fees =
     (let maxFee = currentBaseFee * 2 + priorityFee;
          srt = sortedFees fees;
          avg = (if length fees > 0
                 then bn_div (foldl (\<lambda>acc fee. acc + fee) 0 fees) (int (length fees))
                 else currentBaseFee)
      in \<lparr>baseFee = currentBaseFee,
          maxFeePerGas = maxFee,
          maxPriorityFeePerGas = priorityFee,
          gasLimit = limit,
          estimatedCost = maxFee * limit,
          confidence =
            \<lparr>low = at_or srt 0 currentBaseFee,
             medium = at_or srt (length srt div 2) currentBaseFee,
             high = at_or srt (length srt - 1) currentBaseFee\<rparr>,
          historicalTrends =
            \<lparr>average = avg,
             median = at_or srt (length srt div 2) currentBaseFee,
             percentile90 = at_or srt (percentileIndex (length srt)) currentBaseFee\<rparr>,
          timeEstimates = \<lparr>likely = 15, fast = 30, urgent = 60\<rparr>\<rparr>)"

text \<open>
  The body of the \<^verbatim>\<open>try\<close> block up to the construction of \<^verbatim>\<open>estimationResult\<close>.
  It returns the state (the block history is written before the fee computation can
  throw) and either the message of the error thrown or the result.
\<close>

definition runCycle ::
  "'tx provider \<Rightarrow> 'tx gasEstimatorOptions \<Rightarrow> 'tx option \<Rightarrow> hookState
     \<Rightarrow> hookState \<times> (string + gasEstimation)" where
  "runCycle p opts transaction s =
     (case getBlock_latest p of
        Rejected msg \<Rightarrow> (s, Inl msg)
      | Resolved None \<Rightarrow> (s, Inl nullBlockMessage)
      | Resolved (Some currentBlock) \<Rightarrow>
          (let currentBaseFee = currentBaseFeeOf currentBlock;
               latestBlockNumber = number currentBlock;
               valid = validHistoricalBlocks
                         (historicalFees p (historicalBlocks opts) latestBlockNumber);
               s' = s\<lparr>blockHistory := take 100 (valid @ blockHistory s)\<rparr>
           in case BigNumber_from (priorityFeeBump opts) of
                Inl msg \<Rightarrow> (s', Inl msg)
              | Inr bump \<Rightarrow>
                  (s', Inr (buildEstimation currentBaseFee (bump * 1000000000)
                              (resolveGasLimit p transaction)
                              (historicalBaseFees valid currentBaseFee)))))"

text \<open>\<^verbatim>\<open>err.message || 'Failed to estimate gas'\<close>: the empty message is falsy.\<close>

definition errorMessage :: "string \<Rightarrow> string" where
  "errorMessage msg = (if msg = [] then ''Failed to estimate gas'' else msg)"

text \<open>
  The end of the cycle: the success path, the \<^verbatim>\<open>catch\<close> clause and the
  \<^verbatim>\<open>finally\<close> clause.
\<close>

definition settle ::
  "'tx provider \<Rightarrow> 'tx gasEstimatorOptions \<Rightarrow> 'tx option \<Rightarrow> hookState \<Rightarrow> hookState" where
  "settle p opts transaction s =
     (let s2 = (case runCycle p opts transaction s of
                  (s', Inr estimationResult) \<Rightarrow>
                    s'\<lparr>estimation := Some estimationResult, error := None,
                       called := called s' @
                         (if onSuccess opts then [CalledOnSuccess estimationResult] else [])\<rparr>
                | (s', Inl msg) \<Rightarrow>
                    s'\<lparr>error := Some (errorMessage msg),
                       called := called s' @
                         (if onError opts then [CalledOnError (errorMessage msg)] else [])\<rparr>)
      in s2\<lparr>loading := False\<rparr>)"

definition estimateGas :: "'tx gasEstimatorOptions \<Rightarrow> 'tx option \<Rightarrow> hookState \<Rightarrow> hookState" where
  "estimateGas opts transaction s =
     (case provider opts of
        None \<Rightarrow> s\<lparr>error := Some ''Provider not available'', loading := False\<rparr>
      | Some p \<Rightarrow> settle p opts transaction (s\<lparr>loading := True\<rparr>))"

subsection \<open>Calls in flight\<close>

text \<open>
  \<^verbatim>\<open>estimateGas\<close> is asynchronous: with a provider it writes \<^verbatim>\<open>setLoading(true)\<close>
  at once, suspends on the provider, and settles later; the timer and explicit calls
  may overlap. The scheduler state keeps the hook state, the calls that have begun
  and not settled (with the options and the argument they captured), and the number
  of calls made so far. The replies of the provider are chosen when a call settles.
\<close>

record 'tx sched =
  hook :: hookState
  inFlight :: "('tx gasEstimatorOptions \<times> 'tx option) list"
  callsMade :: nat

definition initialSched :: "'tx sched" where
  "initialSched = \<lparr>hook = initialHookState, inFlight = [], callsMade = 0\<rparr>"

inductive reachable :: "'tx sched \<Rightarrow> bool" where
  mounted: "reachable initialSched"
| refused: "reachable c \<Longrightarrow> provider (opts :: 'tx gasEstimatorOptions) = None \<Longrightarrow>
     reachable \<lparr>hook = estimateGas opts transaction (hook c),
                inFlight = (inFlight c :: ('tx gasEstimatorOptions \<times> 'tx option) list),
                callsMade = callsMade c + 1\<rparr>"
| begun: "reachable c \<Longrightarrow> provider opts = Some p \<Longrightarrow>
     reachable \<lparr>hook = (hook c)\<lparr>loading := True\<rparr>,
                inFlight = (opts, transaction) # inFlight c,
                callsMade = callsMade c + 1\<rparr>"
| settled: "reachable c \<Longrightarrow> (opts, transaction) \<in> set (inFlight c) \<Longrightarrow>
     reachable \<lparr>hook = settle p opts transaction (hook c),
                inFlight = remove1 (opts, transaction) (inFlight c),
                callsMade = callsMade c\<rparr>"

section \<open>The transaction monitor\<close>

text \<open>
  The status strings \<^verbatim>\<open>'pending'\<close>, \<^verbatim>\<open>'confirming'\<close>, \<^verbatim>\<open>'confirmed'\<close>,
  \<^verbatim>\<open>'failed'\<close>, \<^verbatim>\<open>'not found'\<close> and \<^verbatim>\<open>'error'\<close>.
\<close>

datatype status = Pending | Confirming | Confirmed | Failed | NotFound | Errored

record receipt =
  receipt_status :: "int option"
  blockNumber :: int
  receipt_gasUsed :: int
  receipt_effectiveGasPrice :: int

record feeData =
  feeData_maxFeePerGas :: "int option"

text \<open>
  The replies of the provider during one poll. \<^verbatim>\<open>getFeeData\<close> is called from two
  places, so its reply is given per call site. \<open>send_pendingBlock\<close> is the reply to
  \<^verbatim>\<open>send('eth_getBlockByNumber', ['pending', false])\<close>, the hashes of the pending block.
  Of the transaction returned by \<^verbatim>\<open>getTransaction\<close> only its presence is read.
\<close>

datatype feeCall = ForRecommendations | ForCongestion

record txProvider =
  getTransaction :: "unit option reply"
  getTransactionReceipt :: "receipt option reply"
  getBlockNumber :: "int reply"
  send_pendingBlock :: "string list reply"
  getFeeData :: "feeCall \<Rightarrow> feeData reply"

text \<open>
  \<^verbatim>\<open>formatUnits(v, 'gwei')\<close> prints the decimal expansion of \<open>v / 10^9\<close>, and
  \<^verbatim>\<open>parseFloat\<close> reads it back; both are kept as the rational number they denote.
\<close>

definition formatUnits_gwei :: "int \<Rightarrow> rat" where
  "formatUnits_gwei v = of_int v / 1000000000"

record recommendations =
  rec_slow :: rat
  rec_standard :: rat
  rec_fast :: rat

text \<open>
  \<open>gasUsed\<close> and \<open>effectiveGasPrice\<close> hold the number whose decimal string the
  source stores; a history entry is a status with its timestamp. The field
  \<^verbatim>\<open>error\<close> of the source is \<open>info_error\<close> here and the option \<^verbatim>\<open>onError\<close> is
  \<open>onPollError\<close>, since the gas estimator has fields of the same names; the three
  callback options say whether the callback was supplied.
\<close>

record transactionInfo =
  status :: status
  confirmations :: int
  gasUsed :: "int option"
  effectiveGasPrice :: "int option"
  info_error :: "string option"
  history :: "(status \<times> int) list"
  mempoolPosition :: "int option"
  gasPriceRecommendations :: "recommendations option"

record transactionStatusOptions =
  initialPollingInterval :: rat
  requiredConfirmations :: int
  onStatusChange :: bool
  onConfirmation :: bool
  onPollError :: bool

datatype notification =
  StatusChanged status status
| ConfirmationFired transactionInfo
| ErrorFired string

text \<open>
  The state of \<^verbatim>\<open>useTransactionStatus\<close>: the two state cells, the ref holding the
  previous status, and the log of callback calls made so far.
\<close>

record monitor =
  info :: transactionInfo
  pollingInterval :: rat
  prevStatusRef :: status
  fired :: "notification list"

definition initialTransactionInfo :: transactionInfo where
  "initialTransactionInfo =
     \<lparr>status = Pending, confirmations = 0, gasUsed = None, effectiveGasPrice = None,
      info_error = None, history = [], mempoolPosition = None,
      gasPriceRecommendations = None\<rparr>"

definition initialMonitor :: "transactionStatusOptions \<Rightarrow> monitor" where
  "initialMonitor opts =
     \<lparr>info = initialTransactionInfo, pollingInterval = initialPollingInterval opts,
      prevStatusRef = Pending, fired = []\<rparr>"

datatype congestion = High | Normal | Unknown

definition getNetworkCongestion :: "txProvider \<Rightarrow> congestion" where
  "getNetworkCongestion p =
     (case getFeeData p ForCongestion of
        Rejected _ \<Rightarrow> Unknown
      | Resolved fd \<Rightarrow>
          (let maxFee = (case feeData_maxFeePerGas fd of
                           Some v \<Rightarrow> formatUnits_gwei v | None \<Rightarrow> 0)
           in if maxFee > 100 then High else Normal))"

definition getGasPriceRecommendations :: "txProvider \<Rightarrow> recommendations option" where
  "getGasPriceRecommendations p =
     (case getFeeData p ForRecommendations of
        Rejected _ \<Rightarrow> None
      | Resolved fd \<Rightarrow>
          Some (case feeData_maxFeePerGas fd of
                  None \<Rightarrow> \<lparr>rec_slow = 0, rec_standard = 0, rec_fast = 0\<rparr>
                | Some v \<Rightarrow>
                    \<lparr>rec_slow = formatUnits_gwei (bn_div (v * 80) 100),
                     rec_standard = formatUnits_gwei v,
                     rec_fast = formatUnits_gwei (bn_div (v * 120) 100)\<rparr>))"

text \<open>\<^verbatim>\<open>xs.indexOf(x)\<close>: the first index of \<open>x\<close>, or \<open>-1\<close>.\<close>

primrec indexOf :: "'a list \<Rightarrow> 'a \<Rightarrow> int" where
  "indexOf [] x = - 1"
| "indexOf (y # ys) x =
     (if y = x then 0 else (let i = indexOf ys x in if i = - 1 then - 1 else i + 1))"

definition getMempoolPosition :: "txProvider \<Rightarrow> string \<Rightarrow> int option" where
  "getMempoolPosition p txHash =
     (case send_pendingBlock p of
        Rejected _ \<Rightarrow> None
      | Resolved transactions \<Rightarrow>
          (let position = indexOf transactions txHash
           in if position = - 1 then None else Some (position + 1)))"

text \<open>The \<^verbatim>\<open>catch\<close> clause of \<^verbatim>\<open>getTransactionStatus\<close>.\<close>

definition pollFailed :: "string \<Rightarrow> int \<Rightarrow> monitor \<Rightarrow> monitor" where
  "pollFailed msg now m =
     m\<lparr>info := (info m)\<lparr>status := Errored, info_error := Some msg,
                         history := history (info m) @ [(Errored, now)]\<rparr>\<rparr>"

text \<open>
  \<^verbatim>\<open>Math.min(prevInterval * 1.5, 30000)\<close> under high congestion, the configured
  initial interval otherwise. Intervals are kept as rationals, where the product
  is exact.
\<close>

definition adjustInterval :: "transactionStatusOptions \<Rightarrow> txProvider \<Rightarrow> monitor \<Rightarrow> monitor" where
  "adjustInterval opts p m =
     m\<lparr>pollingInterval :=
         (if getNetworkCongestion p = High
          then min (pollingInterval m * (3 / 2)) 30000
          else initialPollingInterval opts)\<rparr>"

definition classify :: "transactionStatusOptions \<Rightarrow> receipt \<Rightarrow> int \<Rightarrow> status" where
  "classify opts rc confs =
     (if receipt_status rc = Some 1
      then (if confs \<ge> requiredConfirmations opts then Confirmed else Confirming)
      else Failed)"

text \<open>
  One poll. \<open>None\<close> is a falsy provider, the empty string a falsy hash; \<open>now\<close> is
  the value of \<^verbatim>\<open>Date.now()\<close>.
\<close>

definition getTransactionStatus ::
  "transactionStatusOptions \<Rightarrow> txProvider option \<Rightarrow> string \<Rightarrow> int \<Rightarrow> monitor \<Rightarrow> monitor" where
  "getTransactionStatus opts prov txHash now m =
     (case prov of
        None \<Rightarrow> m
      | Some p \<Rightarrow>
          if txHash = [] then m
          else
            (case getTransaction p of
               Rejected msg \<Rightarrow> pollFailed msg now m
             | Resolved None \<Rightarrow>
                 m\<lparr>info := (info m)\<lparr>status := NotFound,
                                     info_error := Some ''Transaction not found'',
                                     history := history (info m) @ [(NotFound, now)]\<rparr>\<rparr>
             | Resolved (Some tx) \<Rightarrow>
                 (case getTransactionReceipt p of
                    Rejected msg \<Rightarrow> pollFailed msg now m
                  | Resolved (Some rc) \<Rightarrow>
                      (case getBlockNumber p of
                         Rejected msg \<Rightarrow> pollFailed msg now m
                       | Resolved currentBlock \<Rightarrow>
                           (let confs = currentBlock - blockNumber rc + 1;
                                newStatus = classify opts rc confs
                            in adjustInterval opts p
                                 (m\<lparr>info := (info m)\<lparr>status := newStatus,
                                        confirmations := confs,
                                        gasUsed := Some (receipt_gasUsed rc),
                                        effectiveGasPrice := Some (receipt_effectiveGasPrice rc),
                                        info_error := None,
                                        history := history (info m) @ [(newStatus, now)],
                                        mempoolPosition := None\<rparr>\<rparr>)))
                  | Resolved None \<Rightarrow>
                      (let position = getMempoolPosition p txHash;
                           recs = getGasPriceRecommendations p
                       in adjustInterval opts p
                            (m\<lparr>info := (info m)\<lparr>status := Pending,
                                   mempoolPosition := position,
                                   gasPriceRecommendations := recs,
                                   history := history (info m) @ [(Pending, now)]\<rparr>\<rparr>)))))"

text \<open>
  The effect that watches \<^verbatim>\<open>transactionInfo\<close>: it compares the status with the ref
  and calls the callbacks that were supplied.
\<close>

definition notifyEffect :: "transactionStatusOptions \<Rightarrow> monitor \<Rightarrow> monitor" where
  "notifyEffect opts m =
     (let currentStatus = status (info m);
          m1 = (if currentStatus \<noteq> prevStatusRef m
                then m\<lparr>fired := fired m @
                          (if onStatusChange opts
                           then [StatusChanged currentStatus (prevStatusRef m)] else []),
                       prevStatusRef := currentStatus\<rparr>
                else m);
          m2 = (if currentStatus = Confirmed \<and> onConfirmation opts
                then m1\<lparr>fired := fired m1 @ [ConfirmationFired (info m)]\<rparr>
                else m1);
          m3 = (if currentStatus = Errored \<and> onPollError opts
                then (case info_error (info m) of
                        None \<Rightarrow> m2
                      | Some e \<Rightarrow> if e = [] then m2 else m2\<lparr>fired := fired m2 @ [ErrorFired e]\<rparr>)
                else m2)
      in m3)"

text \<open>
  Every poll that gets past the guard stores a new \<^verbatim>\<open>transactionInfo\<close> object, and
  that update runs the effect: \<open>poll\<close> is the poll with this first pass of the
  effect.
\<close>

definition poll ::
  "transactionStatusOptions \<Rightarrow> txProvider option \<Rightarrow> string \<Rightarrow> int \<Rightarrow> monitor \<Rightarrow> monitor" where
  "poll opts prov txHash now m =
     (case prov of
        None \<Rightarrow> m
      | Some p \<Rightarrow>
          if txHash = [] then m
          else notifyEffect opts (getTransactionStatus opts prov txHash now m))"

text \<open>
  The effect depends on \<^verbatim>\<open>[transactionInfo, onStatusChange, onConfirmation, onError]\<close>,
  so it runs again on every later render on which a callback has a new identity, as
  callbacks written inline in the caller have on each render (the render after
  \<^verbatim>\<open>setPollingInterval\<close> is one). \<open>rerenders\<close> is the number of such renders
  before the next poll.
\<close>

definition pollRendered ::
  "transactionStatusOptions \<Rightarrow> txProvider option \<Rightarrow> string \<Rightarrow> int \<Rightarrow> nat \<Rightarrow> monitor
     \<Rightarrow> monitor" where
  "pollRendered opts prov txHash now rerenders m =
     (notifyEffect opts ^^ rerenders) (poll opts prov txHash now m)"

definition confirmationsFired :: "monitor \<Rightarrow> notification list" where
  "confirmationsFired m =
     filter (\<lambda>n. case n of ConfirmationFired _ \<Rightarrow> True | _ \<Rightarrow> False) (fired m)"

section \<open>Predicates and inputs used in the statements\<close>

text \<open>A historical fetch that was rejected.\<close>

definition fetchFailed :: "'tx provider \<Rightarrow> int \<Rightarrow> bool" where
  "fetchFailed p n = (case getBlock p n of Rejected _ \<Rightarrow> True | Resolved _ \<Rightarrow> False)"

text \<open>A fetched block that brings no nonzero base fee: no block, no fee field, or fee zero.\<close>

definition carriesNoFee :: "block option \<Rightarrow> bool" where
  "carriesNoFee b =
     (case b of None \<Rightarrow> True
      | Some blk \<Rightarrow> (case baseFeePerGas blk of None \<Rightarrow> True | Some f \<Rightarrow> f = 0))"

text \<open>
  Three providers: one whose historical fetches and gas simulation all fail, one whose
  fetch of block 99 fails, and one that is unreachable.
\<close>

definition quietProvider :: "unit provider" where
  "quietProvider =
     \<lparr>getBlock_latest = Resolved (Some \<lparr>number = 100, baseFeePerGas = Some 1000000000\<rparr>),
      getBlock = (\<lambda>n. Rejected ''timeout''),
      provider_estimateGas = (\<lambda>t. Rejected ''reverted'')\<rparr>"

definition patchyProvider :: "unit provider" where
  "patchyProvider =
     \<lparr>getBlock_latest = Resolved (Some \<lparr>number = 100, baseFeePerGas = Some 30\<rparr>),
      getBlock = (\<lambda>n. if n = 99 then Rejected ''timeout''
                       else Resolved (Some \<lparr>number = n, baseFeePerGas = Some (n - 80)\<rparr>)),
      provider_estimateGas = (\<lambda>t. Resolved 50000)\<rparr>"

definition downProvider :: "unit provider" where
  "downProvider =
     \<lparr>getBlock_latest = Rejected ''network down'',
      getBlock = (\<lambda>n. Rejected ''network down''),
      provider_estimateGas = (\<lambda>t. Rejected ''network down'')\<rparr>"

definition optionsWith :: "unit provider option \<Rightarrow> unit gasEstimatorOptions" where
  "optionsWith p =
     \<lparr>provider = p, refreshInterval = 15000, historicalBlocks = 3,
      priorityFeeBump = 10, onError = True, onSuccess = True\<rparr>"

definition quietEstimation :: gasEstimation where
  "quietEstimation =
     \<lparr>baseFee = 1000000000, maxFeePerGas = 12000000000,
      maxPriorityFeePerGas = 10000000000, gasLimit = 21000,
      estimatedCost = 252000000000000,
      confidence = \<lparr>low = 1000000000, medium = 1000000000, high = 1000000000\<rparr>,
      historicalTrends =
        \<lparr>average = 1000000000, median = 1000000000, percentile90 = 1000000000\<rparr>,
      timeEstimates = \<lparr>likely = 15, fast = 30, urgent = 60\<rparr>\<rparr>"

text \<open>
  Two hook states with a past: one that holds a snapshot, one that holds an error.
\<close>

definition staleState :: hookState where
  "staleState = initialHookState\<lparr>loading := False, estimation := Some quietEstimation\<rparr>"

definition erroredState :: hookState where
  "erroredState = initialHookState\<lparr>loading := False, error := Some ''network down''\<rparr>"

text \<open>The scheduler right after the first call has begun.\<close>

definition busySched :: "unit sched" where
  "busySched =
     \<lparr>hook = initialHookState\<lparr>loading := True\<rparr>,
      inFlight = [(optionsWith (Some quietProvider), None)],
      callsMade = 1\<rparr>"

text \<open>
  A poll completes when no provider call outside the helpers is rejected and the
  transaction is found: the receipt is read, and with a receipt the block number too.
\<close>

definition pollCompletes :: "txProvider \<Rightarrow> bool" where
  "pollCompletes p =
     (case getTransaction p of
        Resolved (Some tx) \<Rightarrow>
          (case getTransactionReceipt p of
             Resolved None \<Rightarrow> True
           | Resolved (Some rc) \<Rightarrow>
               (case getBlockNumber p of Resolved _ \<Rightarrow> True | Rejected _ \<Rightarrow> False)
           | Rejected _ \<Rightarrow> False)
      | _ \<Rightarrow> False)"

text \<open>
  Monitor inputs: a transaction mined in block 100, seen from a given current block
  under a given network max fee; a transaction still in the mempool; a provider that
  is unreachable; and a provider that no longer knows the transaction.
\<close>

definition monitorOptions :: transactionStatusOptions where
  "monitorOptions =
     \<lparr>initialPollingInterval = 5000, requiredConfirmations = 3, onStatusChange = True,
      onConfirmation = True, onPollError = True\<rparr>"

definition minedProvider :: "int \<Rightarrow> int \<Rightarrow> txProvider" where
  "minedProvider currentBlock maxFee =
     \<lparr>getTransaction = Resolved (Some ()),
      getTransactionReceipt =
        Resolved (Some \<lparr>receipt_status = Some 1, blockNumber = 100, receipt_gasUsed = 21000,
                        receipt_effectiveGasPrice = 12000000000\<rparr>),
      getBlockNumber = Resolved currentBlock,
      send_pendingBlock = Resolved [],
      getFeeData = (\<lambda>c. Resolved \<lparr>feeData_maxFeePerGas = Some maxFee\<rparr>)\<rparr>"

definition pendingProvider :: txProvider where
  "pendingProvider =
     \<lparr>getTransaction = Resolved (Some ()),
      getTransactionReceipt = Resolved None,
      getBlockNumber = Resolved 100,
      send_pendingBlock = Resolved [''0xabc''],
      getFeeData = (\<lambda>c. Resolved \<lparr>feeData_maxFeePerGas = Some 20000000000\<rparr>)\<rparr>"

definition brokenProvider :: txProvider where
  "brokenProvider =
     \<lparr>getTransaction = Rejected ''network down'',
      getTransactionReceipt = Rejected ''network down'',
      getBlockNumber = Rejected ''network down'',
      send_pendingBlock = Rejected ''network down'',
      getFeeData = (\<lambda>c. Rejected ''network down'')\<rparr>"

definition lostProvider :: txProvider where
  "lostProvider =
     \<lparr>getTransaction = Resolved None,
      getTransactionReceipt = Resolved None,
      getBlockNumber = Resolved 100,
      send_pendingBlock = Resolved [],
      getFeeData = (\<lambda>c. Resolved \<lparr>feeData_maxFeePerGas = Some 20000000000\<rparr>)\<rparr>"

definition confirmedOnce :: monitor where
  "confirmedOnce =
     poll monitorOptions (Some (minedProvider 102 150000000000)) ''0xabc'' 1
       (initialMonitor monitorOptions)"

definition confirmedTwice :: monitor where
  "confirmedTwice =
     poll monitorOptions (Some (minedProvider 103 150000000000)) ''0xabc'' 2 confirmedOnce"

definition confirmedRerendered :: monitor where
  "confirmedRerendered =
     pollRendered monitorOptions (Some (minedProvider 102 150000000000)) ''0xabc'' 1 1
       (initialMonitor monitorOptions)"

definition pendingSeen :: monitor where
  "pendingSeen =
     poll monitorOptions (Some pendingProvider) ''0xabc'' 1 (initialMonitor monitorOptions)"

section \<open>Properties of the gas estimator\<close>

subsection \<open>Outcome of a cycle\<close>

lemma snd_runCycle_loading:
  "snd (runCycle p opts transaction (s\<lparr>loading := b\<rparr>)) = snd (runCycle p opts transaction s)"
  by (simp add: runCycle_def Let_def split: reply.splits option.splits sum.splits)

lemma settle_outcome:
  "snd (runCycle p opts transaction s) = Inr r \<Longrightarrow>
     estimation (settle p opts transaction s) = Some r \<and> error (settle p opts transaction s) = None"
  "snd (runCycle p opts transaction s) = Inl msg \<Longrightarrow>
     error (settle p opts transaction s) = Some (errorMessage msg)
     \<and> estimation (settle p opts transaction s) = estimation s
     \<and> called (settle p opts transaction s) =
         called s @ (if onError opts then [CalledOnError (errorMessage msg)] else [])"
  by (auto simp add: settle_def runCycle_def Let_def
      split: prod.splits sum.splits reply.splits option.splits)

lemma runCycle_formulas:
  assumes "snd (runCycle p opts transaction s) = Inr r"
  shows "maxPriorityFeePerGas r = priorityFeeBump opts * 10 ^ 9
       \<and> maxFeePerGas r = baseFee r * 2 + maxPriorityFeePerGas r
       \<and> estimatedCost r = maxFeePerGas r * gasLimit r"
  using assms
  by (auto simp add: runCycle_def Let_def buildEstimation_def BigNumber_from_def
      split: reply.splits option.splits sum.splits if_splits)

lemma quiet_cycle:
  "snd (runCycle quietProvider (optionsWith (Some quietProvider)) None
          (initialHookState\<lparr>loading := True\<rparr>)) = Inr quietEstimation"
  by code_simp

lemma provider_optionsWith: "provider (optionsWith p) = p"
  by (simp add: optionsWith_def)

text \<open>
  C1. When a cycle succeeds with result \<open>r\<close>, \<open>r\<close> is the snapshot the hook stores, and
  in unbounded integer arithmetic its priority fee is the configured bump times \<open>10^9\<close>,
  its max fee is twice the base fee plus the priority fee, and its estimated cost is
  the max fee times the gas limit.
\<close>

theorem C1_fee_formulas:
  assumes "provider opts = Some p"
    and "snd (runCycle p opts transaction (s\<lparr>loading := True\<rparr>)) = Inr r"
  shows "estimation (estimateGas opts transaction s) = Some r
       \<and> maxPriorityFeePerGas r = priorityFeeBump opts * 10 ^ 9
       \<and> maxFeePerGas r = baseFee r * 2 + maxPriorityFeePerGas r
       \<and> estimatedCost r = maxFeePerGas r * gasLimit r"
  using assms(1) runCycle_formulas[OF assms(2)] settle_outcome(1)[OF assms(2)]
  by (simp add: estimateGas_def)

theorem C1_fee_formulas_witness:
  "estimation (estimateGas (optionsWith (Some quietProvider)) None initialHookState)
     = Some quietEstimation
   \<and> maxPriorityFeePerGas quietEstimation = 10 * 10 ^ 9
   \<and> maxFeePerGas quietEstimation = 1000000000 * 2 + 10000000000
   \<and> estimatedCost quietEstimation = 12000000000 * 21000"
proof -
  have h1: "provider (optionsWith (Some quietProvider)) = Some quietProvider"
    by (rule provider_optionsWith)
  show ?thesis
    using C1_fee_formulas[OF h1 quiet_cycle] by (simp add: quietEstimation_def optionsWith_def)
qed

subsection \<open>The sorted sample\<close>

lemma feeCompare_neg: "feeCompare a b < 0 \<longleftrightarrow> a < b"
  by (simp add: feeCompare_def)

lemma set_insertBy: "set (insertBy c x ys) = insert x (set ys)"
  by (induction ys) auto

lemma mset_insertBy: "mset (insertBy c x ys) = add_mset x (mset ys)"
  by (induction ys) auto

lemma sorted_insertBy:
  "sorted (map v ys) \<Longrightarrow> sorted (map v (insertBy (\<lambda>a b. feeCompare (v a) (v b)) x ys))"
  by (induction ys) (auto simp: feeCompare_neg set_insertBy)

text \<open>
  An element inserted into a sorted prefix lands behind every element of its own
  value.
\<close>

lemma filter_insertBy:
  "sorted (map v ys) \<Longrightarrow>
   filter (\<lambda>e. v e = k) (insertBy (\<lambda>a b. feeCompare (v a) (v b)) x ys) =
   filter (\<lambda>e. v e = k) ys @ (if v x = k then [x] else [])"
proof (induction ys)
  case Nil
  then show ?case by simp
next
  case (Cons y ys)
  show ?case
  proof (cases "v x < v y")
    case True
    have "\<forall>e \<in> set (y # ys). v x < v e"
      using Cons.prems True by auto
    then have "v x = k \<Longrightarrow> filter (\<lambda>e. v e = k) (y # ys) = []"
      by (auto simp: filter_empty_conv)
    then show ?thesis using True by (auto simp: feeCompare_neg)
  next
    case False
    then show ?thesis using Cons by (auto simp: feeCompare_neg)
  qed
qed

lemma foldl_insertBy:
  "sorted (map v acc) \<Longrightarrow>
   sorted (map v (foldl (\<lambda>pre x. insertBy (\<lambda>a b. feeCompare (v a) (v b)) x pre) acc xs))
   \<and> mset (foldl (\<lambda>pre x. insertBy (\<lambda>a b. feeCompare (v a) (v b)) x pre) acc xs)
       = mset acc + mset xs
   \<and> filter (\<lambda>e. v e = k)
       (foldl (\<lambda>pre x. insertBy (\<lambda>a b. feeCompare (v a) (v b)) x pre) acc xs)
       = filter (\<lambda>e. v e = k) acc @ filter (\<lambda>e. v e = k) xs"
proof (induction xs arbitrary: acc)
  case Nil
  then show ?case by simp
next
  case (Cons x xs)
  have s: "sorted (map v (insertBy (\<lambda>a b. feeCompare (v a) (v b)) x acc))"
    using Cons.prems by (rule sorted_insertBy)
  show ?case
    using Cons.IH[OF s] filter_insertBy[OF Cons.prems, of k x]
    by (simp add: mset_insertBy)
qed

lemma sortedFees_single: "sortedFees [x] = [x]"
  by (simp add: sortedFees_def array_sort_def)

lemma sortedFees_sort: "sortedFees fees = sort fees"
proof -
  have "sorted (sortedFees fees)" "mset (sortedFees fees) = mset fees"
    using foldl_insertBy[of "\<lambda>x. x" "[]" fees 0]
    by (simp_all add: array_sort_def sortedFees_def)
  then show ?thesis using properties_for_sort[of "sortedFees fees" fees] by simp
qed

lemma ascending_unique:
  "sorted ys \<and> mset ys = mset fees \<longrightarrow> ys = sortedFees fees"
  using properties_for_sort[of ys fees] by (auto simp: sortedFees_sort)

lemma feeCompare_le: "feeCompare a b \<le> 0 \<longleftrightarrow> a < b"
  by (simp add: feeCompare_def)

lemma set_insertFromRight: "set (insertFromRight c x ys) = insert x (set ys)"
  by (induction ys) auto

lemma mset_insertFromRight: "mset (insertFromRight c x ys) = add_mset x (mset ys)"
  by (induction ys) auto

lemma sorted_insertFromRight:
  "sorted (rev (map v ys)) \<Longrightarrow>
   sorted (rev (map v (insertFromRight (\<lambda>a b. feeCompare (v a) (v b)) x ys)))"
  by (induction ys) (auto simp: feeCompare_le set_insertFromRight sorted_append)

lemma foldl_insertFromRight:
  "sorted (rev (map v acc)) \<Longrightarrow>
   sorted (rev (map v
     (foldl (\<lambda>pre x. insertFromRight (\<lambda>a b. feeCompare (v a) (v b)) x pre) acc xs)))
   \<and> mset (foldl (\<lambda>pre x. insertFromRight (\<lambda>a b. feeCompare (v a) (v b)) x pre) acc xs)
       = mset acc + mset xs"
proof (induction xs arbitrary: acc)
  case Nil
  then show ?case by simp
next
  case (Cons x xs)
  have s: "sorted (rev (map v (insertFromRight (\<lambda>a b. feeCompare (v a) (v b)) x acc)))"
    using Cons.prems by (rule sorted_insertFromRight)
  show ?case using Cons.IH[OF s] by (simp add: mset_insertFromRight)
qed

lemma array_sortR_ascending:
  "sorted (map v (array_sortR (\<lambda>a b. feeCompare (v a) (v b)) xs))
   \<and> mset (array_sortR (\<lambda>a b. feeCompare (v a) (v b)) xs) = mset xs"
  using foldl_insertFromRight[of v "[]" xs] by (simp add: array_sortR_def rev_map)

lemma array_sort_ascending:
  "sorted (map v (array_sort (\<lambda>a b. feeCompare (v a) (v b)) xs))
   \<and> mset (array_sort (\<lambda>a b. feeCompare (v a) (v b)) xs) = mset xs"
  using foldl_insertBy[of v "[]" xs undefined] by (simp add: array_sort_def)

lemma array_sortR_fees: "array_sortR feeCompare fees = sortedFees fees"
proof -
  have "sorted (array_sortR feeCompare fees) \<and> mset (array_sortR feeCompare fees) = mset fees"
    using array_sortR_ascending[of "\<lambda>x. x" fees] by simp
  then show ?thesis using ascending_unique by blast
qed

text \<open>
  C7, as stated, fails in its second half: the comparator answers 1 for two fees of
  equal value, and the host that stops on \<open>comparefn prev x \<le> 0\<close> then moves the later
  one in front of the earlier one. Of two objects of value 5 the second comes out
  first.
\<close>

theorem C7_stability_counterexample:
  "array_sortR (\<lambda>a b. feeCompare (fst a) (fst b))
     [(5 :: int, ''first''), (3, ''other''), (5, ''second'')]
     = [(3, ''other''), (5, ''second''), (5, ''first'')]"
  by (simp add: array_sortR_def feeCompare_def)

text \<open>
  C7, amended. The sorted sample is ascending in the numeric order of the integers
  and is a rearrangement of the sample; it is the only such list of values, and both
  hosts return it. With the fees taken as objects of any type with a value \<open>v\<close>,
  compared by the source's comparator on their values, the result on either host is
  ascending in the values and a rearrangement of the objects. The order among
  objects of equal value is left out: it is the host's.
\<close>

theorem C7_ascending_any_host:
  "sorted (sortedFees fees) \<and> mset (sortedFees fees) = mset fees
   \<and> (\<forall>ys. sorted ys \<and> mset ys = mset fees \<longrightarrow> ys = sortedFees fees)
   \<and> array_sortR feeCompare fees = sortedFees fees
   \<and> sorted (map v (array_sort (\<lambda>a b. feeCompare (v a) (v b)) xs))
   \<and> mset (array_sort (\<lambda>a b. feeCompare (v a) (v b)) xs) = mset xs
   \<and> sorted (map v (array_sortR (\<lambda>a b. feeCompare (v a) (v b)) xs))
   \<and> mset (array_sortR (\<lambda>a b. feeCompare (v a) (v b)) xs) = mset xs"
proof -
  have "sorted (sortedFees fees) \<and> mset (sortedFees fees) = mset fees"
    by (simp add: sortedFees_sort)
  moreover have "\<forall>ys. sorted ys \<and> mset ys = mset fees \<longrightarrow> ys = sortedFees fees"
    using ascending_unique by blast
  ultimately show ?thesis
    using array_sortR_fees[of fees] array_sort_ascending[of v xs] array_sortR_ascending[of v xs]
    by blast
qed

text \<open>
  The sample 9, 100, 10 comes out as 9, 10, 100 on both hosts (by value, where the
  order of the decimal strings would put 10 and 100 before 9), and the objects of
  values 5, 3, 5 come out with values 3, 5, 5 on both.
\<close>

theorem C7_ascending_any_host_witness:
  "sortedFees [9, 100, 10] = [9, 10, 100]
   \<and> array_sortR feeCompare [9, 100, 10] = [9, 10, 100]
   \<and> map fst (array_sort (\<lambda>a b. feeCompare (fst a) (fst b))
        [(5 :: int, ''first''), (3, ''other''), (5, ''second'')]) = [3, 5, 5]
   \<and> map fst (array_sortR (\<lambda>a b. feeCompare (fst a) (fst b))
        [(5 :: int, ''first''), (3, ''other''), (5, ''second'')]) = [3, 5, 5]"
proof -
  have s: "sorted [9, 10, 100 :: int] \<and> mset [9, 10, 100 :: int] = mset [9, 100, 10]"
    by simp
  have t: "(\<forall>ys. sorted ys \<and> mset ys = mset [9, 100, 10] \<longrightarrow> ys = sortedFees [9, 100, 10])
     \<and> array_sortR feeCompare [9, 100, 10] = sortedFees [9, 100, 10]"
    using C7_ascending_any_host[of "[9, 100, 10]" fst "[]"] by blast
  from t s have a: "sortedFees [9, 100, 10] = [9, 10, 100]" by metis
  have b: "map fst (array_sort (\<lambda>a b. feeCompare (fst a) (fst b))
        [(5 :: int, ''first''), (3, ''other''), (5, ''second'')]) = [3, 5, 5]"
    by (simp add: array_sort_def feeCompare_def)
  have c: "map fst (array_sortR (\<lambda>a b. feeCompare (fst a) (fst b))
        [(5 :: int, ''first''), (3, ''other''), (5, ''second'')]) = [3, 5, 5]"
    by (simp add: array_sortR_def feeCompare_def)
  show ?thesis using a b c t by simp
qed

subsection \<open>Historical fetches that fail\<close>

lemma runCycle_success:
  assumes "getBlock_latest p = Resolved (Some cb)"
    and "BigNumber_from (priorityFeeBump opts) = Inr bump"
  shows "snd (runCycle p opts transaction s) =
           Inr (buildEstimation (currentBaseFeeOf cb) (bump * 1000000000)
                  (resolveGasLimit p transaction)
                  (historicalBaseFees
                     (validHistoricalBlocks (historicalFees p (historicalBlocks opts) (number cb)))
                     (currentBaseFeeOf cb)))"
  using assms by (simp add: runCycle_def Let_def)

lemma valid_skips_failed:
  "validHistoricalBlocks (map (fetchBlock p) ns) =
   validHistoricalBlocks (map (fetchBlock p) (filter (\<lambda>n. \<not> fetchFailed p n) ns))"
  by (induction ns)
     (auto simp: validHistoricalBlocks_def List.map_filter_simps fetchFailed_def fetchBlock_def
           validBlock_def split: reply.splits option.splits)

lemma bump_ok: "BigNumber_from (priorityFeeBump (optionsWith p)) = Inr 10"
  by (simp add: optionsWith_def BigNumber_from_def MAX_SAFE_def)

lemma patchy_latest:
  "getBlock_latest patchyProvider = Resolved (Some \<lparr>number = 100, baseFeePerGas = Some 30\<rparr>)"
  by (simp add: patchyProvider_def)

lemma patchy_failed: "fetchFailed patchyProvider 99"
  by (simp add: fetchFailed_def patchyProvider_def)

lemma patchy_numbers:
  "filter (\<lambda>n. \<not> fetchFailed patchyProvider n)
     (blockNumbers (historicalBlocks (optionsWith (Some patchyProvider)))
        (number \<lparr>number = 100, baseFeePerGas = Some 30\<rparr>)) = [100, 98]"
  by code_simp

text \<open>
  C2. Whatever the historical fetches do, each on its own, a cycle whose mandatory
  steps pass (the latest block is delivered and the priority bump converts) completes:
  it emits a snapshot and clears the error. The snapshot is the one computed from the
  block numbers whose fetch did not fail, so a failed fetch contributes nothing.
\<close>

theorem C2_partial_failure:
  assumes "provider opts = Some p"
    and "getBlock_latest p = Resolved (Some cb)"
    and "BigNumber_from (priorityFeeBump opts) = Inr bump"
  shows "\<exists>r. snd (runCycle p opts transaction (s\<lparr>loading := True\<rparr>)) = Inr r
           \<and> estimation (estimateGas opts transaction s) = Some r
           \<and> error (estimateGas opts transaction s) = None
           \<and> r = buildEstimation (currentBaseFeeOf cb) (bump * 1000000000)
                   (resolveGasLimit p transaction)
                   (historicalBaseFees
                      (validHistoricalBlocks
                         (map (fetchBlock p)
                            (filter (\<lambda>n. \<not> fetchFailed p n)
                               (blockNumbers (historicalBlocks opts) (number cb)))))
                      (currentBaseFeeOf cb))"
proof -
  let ?r = "buildEstimation (currentBaseFeeOf cb) (bump * 1000000000)
                  (resolveGasLimit p transaction)
                  (historicalBaseFees
                     (validHistoricalBlocks (historicalFees p (historicalBlocks opts) (number cb)))
                     (currentBaseFeeOf cb))"
  have ok: "snd (runCycle p opts transaction (s\<lparr>loading := True\<rparr>)) = Inr ?r"
    using assms(2,3) by (rule runCycle_success)
  have "estimation (estimateGas opts transaction s) = Some ?r"
       "error (estimateGas opts transaction s) = None"
    using settle_outcome(1)[OF ok] assms(1) by (simp_all add: estimateGas_def)
  moreover have "validHistoricalBlocks (historicalFees p (historicalBlocks opts) (number cb)) =
      validHistoricalBlocks (map (fetchBlock p)
         (filter (\<lambda>n. \<not> fetchFailed p n) (blockNumbers (historicalBlocks opts) (number cb))))"
    unfolding historicalFees_def by (rule valid_skips_failed)
  ultimately show ?thesis using ok by simp
qed

theorem C2_partial_failure_witness:
  "fetchFailed patchyProvider 99
   \<and> (\<exists>r. estimation (estimateGas (optionsWith (Some patchyProvider)) (Some ())
                        initialHookState) = Some r
         \<and> error (estimateGas (optionsWith (Some patchyProvider)) (Some ())
                    initialHookState) = None
         \<and> r = buildEstimation 30 (10 * 1000000000) 50000
                 (historicalBaseFees
                    (validHistoricalBlocks (map (fetchBlock patchyProvider) [100, 98])) 30))"
proof -
  have cb: "currentBaseFeeOf \<lparr>number = 100, baseFeePerGas = Some 30\<rparr> = 30"
    by (simp add: currentBaseFeeOf_def)
  have gl: "resolveGasLimit patchyProvider (Some ()) = 50000"
    by (simp add: resolveGasLimit_def patchyProvider_def)
  show ?thesis
    using C2_partial_failure[OF provider_optionsWith patchy_latest bump_ok,
            of "Some ()" initialHookState] patchy_failed
    unfolding patchy_numbers cb gl by blast
qed

subsection \<open>A history without fees\<close>

lemma no_fee_sample:
  "\<forall>n \<in> set ns. carriesNoFee (fetchBlock p n) \<Longrightarrow>
   filter (\<lambda>fee. fee \<noteq> 0)
     (List.map_filter baseFeePerGas (validHistoricalBlocks (map (fetchBlock p) ns))) = []"
  by (induction ns)
     (auto simp: validHistoricalBlocks_def List.map_filter_simps carriesNoFee_def validBlock_def
           split: option.splits)

lemma bn_div_one: "bn_div a 1 = a"
  by (simp add: bn_div_def mult_sgn_abs)

lemma buildEstimation_single:
  "buildEstimation bf pf glimit [bf] =
     \<lparr>baseFee = bf, maxFeePerGas = bf * 2 + pf, maxPriorityFeePerGas = pf, gasLimit = glimit,
      estimatedCost = (bf * 2 + pf) * glimit,
      confidence = \<lparr>low = bf, medium = bf, high = bf\<rparr>,
      historicalTrends = \<lparr>average = bf, median = bf, percentile90 = bf\<rparr>,
      timeEstimates = \<lparr>likely = 15, fast = 30, urgent = 60\<rparr>\<rparr>"
  by (simp add: buildEstimation_def sortedFees_single at_or_def percentileIndex_def
      bn_div_one Let_def)

lemma quiet_latest:
  "getBlock_latest quietProvider =
     Resolved (Some \<lparr>number = 100, baseFeePerGas = Some 1000000000\<rparr>)"
  by (simp add: quietProvider_def)

lemma quiet_no_fee:
  "\<forall>n \<in> set (blockNumbers (historicalBlocks (optionsWith (Some quietProvider)))
                 (number \<lparr>number = 100, baseFeePerGas = Some 1000000000\<rparr>)).
      carriesNoFee (fetchBlock quietProvider n)"
  by (simp add: carriesNoFee_def fetchBlock_def quietProvider_def)

text \<open>
  C6. When every historical fetch fails or brings no nonzero base fee, the sample is
  the current base fee alone, and the three confidence levels and the three trend
  fields of the emitted snapshot are all that base fee.
\<close>

theorem C6_empty_history:
  assumes "provider opts = Some p"
    and "getBlock_latest p = Resolved (Some cb)"
    and "BigNumber_from (priorityFeeBump opts) = Inr bump"
    and "\<forall>n \<in> set (blockNumbers (historicalBlocks opts) (number cb)).
           carriesNoFee (fetchBlock p n)"
  shows "historicalBaseFees
           (validHistoricalBlocks (historicalFees p (historicalBlocks opts) (number cb)))
           (currentBaseFeeOf cb) = [currentBaseFeeOf cb]
       \<and> (\<exists>r. estimation (estimateGas opts transaction s) = Some r
            \<and> baseFee r = currentBaseFeeOf cb
            \<and> low (confidence r) = currentBaseFeeOf cb
            \<and> medium (confidence r) = currentBaseFeeOf cb
            \<and> high (confidence r) = currentBaseFeeOf cb
            \<and> average (historicalTrends r) = currentBaseFeeOf cb
            \<and> median (historicalTrends r) = currentBaseFeeOf cb
            \<and> percentile90 (historicalTrends r) = currentBaseFeeOf cb)"
proof -
  have sample: "historicalBaseFees
           (validHistoricalBlocks (historicalFees p (historicalBlocks opts) (number cb)))
           (currentBaseFeeOf cb) = [currentBaseFeeOf cb]"
    using no_fee_sample[OF assms(4)] by (simp add: historicalBaseFees_def historicalFees_def)
  have ok: "snd (runCycle p opts transaction (s\<lparr>loading := True\<rparr>)) =
      Inr (buildEstimation (currentBaseFeeOf cb) (bump * 1000000000)
             (resolveGasLimit p transaction) [currentBaseFeeOf cb])"
    using runCycle_success[OF assms(2,3), of transaction "s\<lparr>loading := True\<rparr>"] sample
    by simp
  have "estimation (estimateGas opts transaction s) =
      Some (buildEstimation (currentBaseFeeOf cb) (bump * 1000000000)
             (resolveGasLimit p transaction) [currentBaseFeeOf cb])"
    using settle_outcome(1)[OF ok] assms(1) by (simp add: estimateGas_def)
  then show ?thesis using sample by (simp add: buildEstimation_single)
qed

theorem C6_empty_history_witness:
  "\<exists>r. estimation (estimateGas (optionsWith (Some quietProvider)) None initialHookState) = Some r
       \<and> baseFee r = 1000000000
       \<and> low (confidence r) = 1000000000
       \<and> medium (confidence r) = 1000000000
       \<and> high (confidence r) = 1000000000
       \<and> average (historicalTrends r) = 1000000000
       \<and> median (historicalTrends r) = 1000000000
       \<and> percentile90 (historicalTrends r) = 1000000000"
proof -
  have cb: "currentBaseFeeOf \<lparr>number = 100, baseFeePerGas = Some 1000000000\<rparr> = 1000000000"
    by (simp add: currentBaseFeeOf_def)
  show ?thesis
    using C6_empty_history[OF provider_optionsWith quiet_latest bump_ok quiet_no_fee,
            of None initialHookState]
    unfolding cb by blast
qed

subsection \<open>Failure and success of a cycle\<close>

lemma down_latest: "getBlock_latest downProvider = Rejected ''network down''"
  by (simp add: downProvider_def)

lemma quiet_cycle_errored:
  "snd (runCycle quietProvider (optionsWith (Some quietProvider)) None
          (erroredState\<lparr>loading := True\<rparr>)) = Inr quietEstimation"
  by code_simp

text \<open>
  C3. A rejected fetch of the latest block fails the cycle with the message of the
  rejection. A cycle that fails records the error (the message, or the default text
  when there is none), calls \<^verbatim>\<open>onError\<close> with it when the callback was supplied, and
  leaves the stored snapshot as it was. A cycle that succeeds stores its result and
  sets the error to \<^verbatim>\<open>null\<close>.
\<close>

theorem C3_failure_keeps_snapshot:
  assumes "provider opts = Some p"
  shows "(getBlock_latest p = Rejected msg \<longrightarrow>
            snd (runCycle p opts transaction (s\<lparr>loading := True\<rparr>)) = Inl msg)
       \<and> (snd (runCycle p opts transaction (s\<lparr>loading := True\<rparr>)) = Inl msg \<longrightarrow>
            error (estimateGas opts transaction s) = Some (errorMessage msg)
            \<and> estimation (estimateGas opts transaction s) = estimation s
            \<and> called (estimateGas opts transaction s) =
                called s @ (if onError opts then [CalledOnError (errorMessage msg)] else []))
       \<and> (snd (runCycle p opts transaction (s\<lparr>loading := True\<rparr>)) = Inr r \<longrightarrow>
            error (estimateGas opts transaction s) = None
            \<and> estimation (estimateGas opts transaction s) = Some r)"
proof (intro conjI impI)
  assume "getBlock_latest p = Rejected msg"
  then show "snd (runCycle p opts transaction (s\<lparr>loading := True\<rparr>)) = Inl msg"
    by (simp add: runCycle_def)
next
  assume f: "snd (runCycle p opts transaction (s\<lparr>loading := True\<rparr>)) = Inl msg"
  show "error (estimateGas opts transaction s) = Some (errorMessage msg)"
       "estimation (estimateGas opts transaction s) = estimation s"
       "called (estimateGas opts transaction s) =
                called s @ (if onError opts then [CalledOnError (errorMessage msg)] else [])"
    using settle_outcome(2)[OF f] assms by (simp_all add: estimateGas_def)
next
  assume ok: "snd (runCycle p opts transaction (s\<lparr>loading := True\<rparr>)) = Inr r"
  show "error (estimateGas opts transaction s) = None"
       "estimation (estimateGas opts transaction s) = Some r"
    using settle_outcome(1)[OF ok] assms by (simp_all add: estimateGas_def)
qed

theorem C3_failure_keeps_snapshot_witness:
  "error (estimateGas (optionsWith (Some downProvider)) None staleState)
     = Some ''network down''
   \<and> estimation (estimateGas (optionsWith (Some downProvider)) None staleState)
     = Some quietEstimation
   \<and> called (estimateGas (optionsWith (Some downProvider)) None staleState)
     = [CalledOnError ''network down'']
   \<and> error erroredState = Some ''network down''
   \<and> error (estimateGas (optionsWith (Some quietProvider)) None erroredState) = None
   \<and> estimation (estimateGas (optionsWith (Some quietProvider)) None erroredState)
     = Some quietEstimation"
proof -
  have a: "error (estimateGas (optionsWith (Some downProvider)) None staleState)
       = Some (errorMessage ''network down'')
   \<and> estimation (estimateGas (optionsWith (Some downProvider)) None staleState)
       = estimation staleState
   \<and> called (estimateGas (optionsWith (Some downProvider)) None staleState) =
       called staleState @
         (if onError (optionsWith (Some downProvider))
          then [CalledOnError (errorMessage ''network down'')] else [])"
    using C3_failure_keeps_snapshot[OF provider_optionsWith,
            of downProvider "''network down''" None staleState] down_latest
    by blast
  have b: "error (estimateGas (optionsWith (Some quietProvider)) None erroredState) = None
   \<and> estimation (estimateGas (optionsWith (Some quietProvider)) None erroredState)
       = Some quietEstimation"
    using C3_failure_keeps_snapshot[OF provider_optionsWith,
            of quietProvider _ None erroredState quietEstimation] quiet_cycle_errored
    by blast
  show ?thesis using a b
    by (simp add: errorMessage_def staleState_def erroredState_def initialHookState_def
        optionsWith_def)
qed

subsection \<open>The loading flag\<close>

lemma loading_settle: "loading (settle p opts transaction s) = False"
  by (simp add: settle_def Let_def)

lemma loading_estimateGas: "loading (estimateGas opts transaction s) = False"
  by (simp add: estimateGas_def loading_settle split: option.splits)

lemma reachable_loading:
  "reachable c \<Longrightarrow> loading (hook c) \<Longrightarrow> inFlight c \<noteq> [] \<or> callsMade c = 0"
  by (induction rule: reachable.induct)
     (simp_all add: initialSched_def loading_settle loading_estimateGas)

lemma reachable_busy: "reachable busySched"
proof -
  have "reachable
          \<lparr>hook = (hook (initialSched :: unit sched))\<lparr>loading := True\<rparr>,
           inFlight = (optionsWith (Some quietProvider), None)
                        # inFlight (initialSched :: unit sched),
           callsMade = callsMade (initialSched :: unit sched) + 1\<rparr>"
    by (rule reachable.begun[OF reachable.mounted provider_optionsWith])
  then show ?thesis by (simp add: busySched_def initialSched_def)
qed

text \<open>
  C10, as stated, fails: the hook is created with \<open>loading = True\<close>, so the flag is
  set in the first state, where no call has been made and none is in flight.
\<close>

theorem C10_loading_counterexample:
  "reachable (initialSched :: unit sched)
   \<and> loading (hook (initialSched :: unit sched))
   \<and> inFlight (initialSched :: unit sched) = []"
  by (intro conjI, rule reachable.mounted) (simp_all add: initialSched_def initialHookState_def)

text \<open>
  C10, amended. In every reachable state, a call that completes there leaves the
  loading flag false, whether it ran as a whole, was refused for want of a provider,
  or settles after having been in flight; and when the flag is true, either a call is
  in flight or no call has been made yet.
\<close>

theorem C10_loading:
  assumes "reachable c"
  shows "loading (estimateGas opts transaction (hook c)) = False
       \<and> loading (settle p opts' transaction' (hook c)) = False
       \<and> (loading (hook c) \<longrightarrow> inFlight c \<noteq> [] \<or> callsMade c = 0)"
  using reachable_loading[OF assms] by (simp add: loading_settle loading_estimateGas)

theorem C10_loading_witness:
  "loading (hook busySched) \<and> inFlight busySched \<noteq> []
   \<and> loading (estimateGas (optionsWith None) None (hook busySched)) = False
   \<and> loading (settle quietProvider (optionsWith (Some quietProvider)) None (hook busySched))
       = False"
  using C10_loading[OF reachable_busy,
          of "optionsWith None" None quietProvider "optionsWith (Some quietProvider)" None]
  by (simp add: busySched_def initialHookState_def)

section \<open>Properties of the transaction monitor\<close>

lemma info_adjustInterval: "info (adjustInterval opts p m) = info m"
  by (simp add: adjustInterval_def)

lemma fired_adjustInterval: "fired (adjustInterval opts p m) = fired m"
  by (simp add: adjustInterval_def)

lemma fired_getTransactionStatus: "fired (getTransactionStatus opts prov txHash now m) = fired m"
  by (simp add: getTransactionStatus_def pollFailed_def fired_adjustInterval Let_def
      split: option.splits reply.splits)

lemma info_notifyEffect: "info (notifyEffect opts m) = info m"
  by (simp add: notifyEffect_def Let_def split: option.splits)

lemma mined_replies:
  "getTransaction (minedProvider cb mf) = Resolved (Some ())"
  "getTransactionReceipt (minedProvider cb mf) =
     Resolved (Some \<lparr>receipt_status = Some 1, blockNumber = 100, receipt_gasUsed = 21000,
                     receipt_effectiveGasPrice = 12000000000\<rparr>)"
  "getBlockNumber (minedProvider cb mf) = Resolved cb"
  by (simp_all add: minedProvider_def)

lemma hash_nonempty: "''0xabc'' \<noteq> []"
  by simp

subsection \<open>Classification of a receipt\<close>

lemma receipt_poll:
  assumes "getTransaction p = Resolved (Some tx)"
    and "getTransactionReceipt p = Resolved (Some rc)"
    and "getBlockNumber p = Resolved currentBlock"
    and "txHash \<noteq> []"
  shows "info (getTransactionStatus opts (Some p) txHash now m) =
           (info m)\<lparr>status := classify opts rc (currentBlock - blockNumber rc + 1),
                     confirmations := currentBlock - blockNumber rc + 1,
                     gasUsed := Some (receipt_gasUsed rc),
                     effectiveGasPrice := Some (receipt_effectiveGasPrice rc),
                     info_error := None,
                     history := history (info m) @
                        [(classify opts rc (currentBlock - blockNumber rc + 1), now)],
                     mempoolPosition := None\<rparr>"
  using assms by (simp add: getTransactionStatus_def info_adjustInterval Let_def)

text \<open>
  C4. On a poll that finds the transaction, its receipt and the current block number,
  the confirmations are the current block number minus the receipt's block number plus
  one; a receipt of status 1 gives \<open>Confirmed\<close> from the required number of
  confirmations on and \<open>Confirming\<close> below it, in particular at one less than
  required; any other receipt status gives \<open>Failed\<close>.
\<close>

theorem C4_receipt_classification:
  assumes "getTransaction p = Resolved (Some tx)"
    and "getTransactionReceipt p = Resolved (Some rc)"
    and "getBlockNumber p = Resolved currentBlock"
    and "txHash \<noteq> []"
    and "m' = getTransactionStatus opts (Some p) txHash now m"
  shows "confirmations (info m') = currentBlock - blockNumber rc + 1
       \<and> (receipt_status rc = Some 1 \<and> confirmations (info m') \<ge> requiredConfirmations opts
            \<longrightarrow> status (info m') = Confirmed)
       \<and> (receipt_status rc = Some 1 \<and> confirmations (info m') < requiredConfirmations opts
            \<longrightarrow> status (info m') = Confirming)
       \<and> (receipt_status rc = Some 1 \<and> confirmations (info m') = requiredConfirmations opts - 1
            \<longrightarrow> status (info m') = Confirming)
       \<and> (receipt_status rc \<noteq> Some 1 \<longrightarrow> status (info m') = Failed)"
  using receipt_poll[OF assms(1-4), of opts now m] assms(5)
  by (simp add: classify_def)

theorem C4_receipt_classification_witness:
  "requiredConfirmations monitorOptions - 1 = 2
   \<and> confirmations (info (getTransactionStatus monitorOptions
                           (Some (minedProvider 101 20000000000))
                           ''0xabc'' 1 (initialMonitor monitorOptions))) = 2
   \<and> status (info (getTransactionStatus monitorOptions
                           (Some (minedProvider 101 20000000000))
                           ''0xabc'' 1 (initialMonitor monitorOptions))) = Confirming
   \<and> status (info (getTransactionStatus monitorOptions
                           (Some (minedProvider 102 20000000000))
                           ''0xabc'' 1 (initialMonitor monitorOptions))) = Confirmed"
  using C4_receipt_classification[where p = "minedProvider 101 20000000000"
            and opts = monitorOptions and now = 1 and m = "initialMonitor monitorOptions",
            OF mined_replies(1) mined_replies(2) mined_replies(3) hash_nonempty refl]
        C4_receipt_classification[where p = "minedProvider 102 20000000000"
            and opts = monitorOptions and now = 1 and m = "initialMonitor monitorOptions",
            OF mined_replies(1) mined_replies(2) mined_replies(3) hash_nonempty refl]
  by (simp add: monitorOptions_def)

subsection \<open>The confirmation callback\<close>

lemma confirmationsFired_notifyEffect:
  "confirmationsFired (notifyEffect opts m) =
     confirmationsFired m @
       (if status (info m) = Confirmed \<and> onConfirmation opts
        then [ConfirmationFired (info m)] else [])"
  by (simp add: notifyEffect_def confirmationsFired_def Let_def split: option.splits)

text \<open>
  C5, as stated, fails: a transaction found confirmed on two polls in a row has the
  confirmation callback called on the first poll and called again on the second,
  while the status stays \<open>Confirmed\<close>.
\<close>

theorem C5_confirmation_counterexample:
  "status (info confirmedOnce) = Confirmed \<and> length (confirmationsFired confirmedOnce) = 1
   \<and> status (info confirmedTwice) = Confirmed
   \<and> length (confirmationsFired confirmedTwice) = 2"
  by code_simp

lemma info_passes: "info ((notifyEffect opts ^^ n) m) = info m"
  by (induction n) (simp_all add: info_notifyEffect)

lemma confirmationsFired_passes:
  "confirmationsFired ((notifyEffect opts ^^ n) m) =
     confirmationsFired m @
       (if status (info m) = Confirmed \<and> onConfirmation opts
        then replicate n (ConfirmationFired (info m)) else [])"
proof (induction n)
  case 0
  then show ?case by simp
next
  case (Suc n)
  show ?case
    using Suc
    by (simp add: confirmationsFired_notifyEffect info_passes replicate_append_same)
qed

lemma confirmationsFired_poll:
  assumes "prov = Some p" and "txHash \<noteq> []"
  shows "confirmationsFired (poll opts prov txHash now m) =
           confirmationsFired m @
             (if status (info (poll opts prov txHash now m)) = Confirmed \<and> onConfirmation opts
              then [ConfirmationFired (info (poll opts prov txHash now m))] else [])"
  using assms
  by (simp add: poll_def confirmationsFired_notifyEffect info_notifyEffect)
     (simp add: confirmationsFired_def fired_getTransactionStatus)

text \<open>
  C5, amended. The confirmation callback, when supplied, is called by every pass of
  the effect that sees the status \<open>Confirmed\<close>, and by no other. A poll that gets
  past the guard is followed by one pass for its own update and by one more for each
  later render with new callback identities, so the callback is called at least once
  on the poll that enters \<open>Confirmed\<close> and at least once on every later poll that
  finds it still \<open>Confirmed\<close>: one call plus one per such render.
\<close>

theorem C5_confirmation_every_pass:
  assumes "prov = Some p" and "txHash \<noteq> []"
    and "m' = pollRendered opts prov txHash now rerenders m"
  shows "info m' = info (getTransactionStatus opts prov txHash now m)
       \<and> confirmationsFired m' =
           confirmationsFired m @
             (if status (info m') = Confirmed \<and> onConfirmation opts
              then replicate (Suc rerenders) (ConfirmationFired (info m')) else [])"
proof -
  have i: "info m' = info (poll opts prov txHash now m)"
    using assms(3) by (simp add: pollRendered_def info_passes)
  have j: "info (poll opts prov txHash now m) =
             info (getTransactionStatus opts prov txHash now m)"
    using assms(1,2) by (simp add: poll_def info_notifyEffect)
  show ?thesis
    using i j assms(3) confirmationsFired_poll[OF assms(1,2), of opts now m]
    by (simp add: pollRendered_def confirmationsFired_passes replicate_append_same)
qed

text \<open>
  One poll that finds the transaction confirmed, followed by one render with new
  callback identities: the callback is called twice.
\<close>

theorem C5_confirmation_every_pass_witness:
  "status (info confirmedRerendered) = Confirmed
   \<and> confirmationsFired confirmedRerendered =
       [ConfirmationFired (info confirmedRerendered),
        ConfirmationFired (info confirmedRerendered)]"
proof -
  have a: "status (info confirmedRerendered) = Confirmed" by code_simp
  have b: "onConfirmation monitorOptions" by (simp add: monitorOptions_def)
  have c: "confirmationsFired (initialMonitor monitorOptions) = []"
    by (simp add: confirmationsFired_def initialMonitor_def)
  have d: "confirmedRerendered =
             pollRendered monitorOptions (Some (minedProvider 102 150000000000)) ''0xabc'' 1 1
               (initialMonitor monitorOptions)"
    by (rule confirmedRerendered_def)
  show ?thesis
    using C5_confirmation_every_pass[OF refl hash_nonempty d] a b c
    by (simp add: numeral_2_eq_2)
qed

subsection \<open>Congestion and the polling interval\<close>

lemma congestion_high:
  "getNetworkCongestion p = High \<longleftrightarrow>
     (\<exists>fd v. getFeeData p ForCongestion = Resolved fd \<and> feeData_maxFeePerGas fd = Some v
        \<and> formatUnits_gwei v > 100)"
  by (auto simp add: getNetworkCongestion_def Let_def split: reply.splits option.splits)

lemma congestion_unknown:
  "getNetworkCongestion p = Unknown \<longleftrightarrow> (\<exists>msg. getFeeData p ForCongestion = Rejected msg)"
  by (auto simp add: getNetworkCongestion_def Let_def split: reply.splits option.splits)

lemma formatUnits_gt: "formatUnits_gwei v > 100 \<longleftrightarrow> v > 100000000000"
proof -
  have "(of_int v :: rat) / 1000000000 > 100 \<longleftrightarrow> (of_int v :: rat) > of_int 100000000000"
    by (simp add: field_simps)
  then show ?thesis unfolding formatUnits_gwei_def by (simp only: of_int_less_iff)
qed

lemma interval_after_poll:
  assumes "pollCompletes p" and "txHash \<noteq> []"
  shows "pollingInterval (getTransactionStatus opts (Some p) txHash now m) =
     (if getNetworkCongestion p = High then min (pollingInterval m * (3 / 2)) 30000
      else initialPollingInterval opts)"
  using assms
  by (auto simp add: pollCompletes_def getTransactionStatus_def Let_def adjustInterval_def
      split: reply.splits option.splits)

lemma mined_completes: "pollCompletes (minedProvider cb mf)"
  by (simp add: pollCompletes_def minedProvider_def)

lemma mined_congestion:
  "getNetworkCongestion (minedProvider cb 150000000000) = High"
  "getNetworkCongestion (minedProvider cb 100000000000) = Normal"
  by (simp_all add: getNetworkCongestion_def minedProvider_def formatUnits_gwei_def)

text \<open>
  C8. On a poll that finds the transaction and completes, the new interval is the
  previous one times 1.5, capped at 30000, when congestion is high, and the configured
  initial interval otherwise. Congestion is high exactly when the fee data arrive with
  a max fee above 100 gwei, that is above \<open>100 * 10^9\<close> wei, unknown exactly when
  the fee data request is rejected, and normal in the remaining case.
\<close>

theorem C8_congestion_interval:
  assumes "pollCompletes p" and "txHash \<noteq> []"
  shows "pollingInterval (getTransactionStatus opts (Some p) txHash now m) =
           (if getNetworkCongestion p = High then min (pollingInterval m * (3 / 2)) 30000
            else initialPollingInterval opts)
       \<and> (getNetworkCongestion p = High \<longleftrightarrow>
            (\<exists>fd v. getFeeData p ForCongestion = Resolved fd \<and> feeData_maxFeePerGas fd = Some v
               \<and> formatUnits_gwei v > 100 \<and> v > 100000000000))
       \<and> (getNetworkCongestion p = Unknown \<longleftrightarrow>
            (\<exists>msg. getFeeData p ForCongestion = Rejected msg))
       \<and> (getNetworkCongestion p = Normal \<longleftrightarrow>
            (\<exists>fd. getFeeData p ForCongestion = Resolved fd
               \<and> (case feeData_maxFeePerGas fd of
                     None \<Rightarrow> True | Some v \<Rightarrow> formatUnits_gwei v \<le> 100)))"
proof -
  have normal: "getNetworkCongestion p = Normal \<longleftrightarrow>
            (\<exists>fd. getFeeData p ForCongestion = Resolved fd
               \<and> (case feeData_maxFeePerGas fd of
                     None \<Rightarrow> True | Some v \<Rightarrow> formatUnits_gwei v \<le> 100))"
    by (auto simp add: getNetworkCongestion_def Let_def split: reply.splits option.splits)
  show ?thesis
    using interval_after_poll[OF assms] congestion_high[of p] congestion_unknown[of p] normal
    by (simp add: formatUnits_gt)
qed

theorem C8_congestion_interval_witness:
  "getNetworkCongestion (minedProvider 102 150000000000) = High
   \<and> pollingInterval (getTransactionStatus monitorOptions
        (Some (minedProvider 102 150000000000))
        ''0xabc'' 1 (initialMonitor monitorOptions)) = 7500
   \<and> getNetworkCongestion (minedProvider 102 100000000000) = Normal
   \<and> pollingInterval (getTransactionStatus monitorOptions
        (Some (minedProvider 102 100000000000))
        ''0xabc'' 2 confirmedTwice) = 5000"
proof -
  have i: "pollingInterval (initialMonitor monitorOptions) = 5000"
    by (simp add: initialMonitor_def monitorOptions_def)
  show ?thesis
    using C8_congestion_interval[where p = "minedProvider 102 150000000000"
            and opts = monitorOptions and now = 1 and m = "initialMonitor monitorOptions",
            OF mined_completes hash_nonempty]
      C8_congestion_interval[where p = "minedProvider 102 100000000000"
            and opts = monitorOptions and now = 2 and m = confirmedTwice,
            OF mined_completes hash_nonempty]
      mined_congestion[of 102] i
    by (simp add: monitorOptions_def)
qed

subsection \<open>The mempool position outside the pending status\<close>

text \<open>
  C9 at a failing input. A poll finds the transaction at position 1 of the mempool.
  On the next poll the provider is unreachable, or no longer knows the transaction:
  the status becomes \<open>Errored\<close>, or \<open>NotFound\<close>, and the mempool position is still
  position 1, where the branch for a receipt resets it.
\<close>

theorem C9_stale_mempoolPosition:
  "status (info pendingSeen) = Pending \<and> mempoolPosition (info pendingSeen) = Some 1
   \<and> status (info (poll monitorOptions (Some brokenProvider) ''0xabc'' 2 pendingSeen))
       = Errored
   \<and> mempoolPosition (info (poll monitorOptions (Some brokenProvider) ''0xabc'' 2 pendingSeen))
       = Some 1
   \<and> status (info (poll monitorOptions (Some lostProvider) ''0xabc'' 2 pendingSeen))
       = NotFound
   \<and> mempoolPosition (info (poll monitorOptions (Some lostProvider) ''0xabc'' 2 pendingSeen))
       = Some 1"
  by code_simp

end
